theory Spec2Isabelle
  imports Main
begin

section \<open>Data model\<close>

text \<open>
  A shallow embedding of \<^verbatim>\<open>src/main.py\<close>. Python \<^verbatim>\<open>str\<close> values are modelled as
  \<^typ>\<open>string\<close>: a character is a code point below 256. In that range the regular
  expression class \<^verbatim>\<open>\d\<close> matches exactly the characters \<^verbatim>\<open>0\<close> to \<^verbatim>\<open>9\<close>.

  A value of the \<^verbatim>\<open>Exif\<close> tag mapping read by \<^verbatim>\<open>piexif.load\<close> is a \<^verbatim>\<open>bytes\<close> object
  or something else (an integer, a rational). A \<^verbatim>\<open>bytes\<close> value is represented by the
  outcome of \<^verbatim>\<open>value.decode('utf-8')\<close>: the decoded text, or the fact that decoding
  raises \<^verbatim>\<open>UnicodeDecodeError\<close>. Accordingly \<^verbatim>\<open>s.encode('utf-8')\<close> is \<open>Utf8 s\<close>.
\<close>

datatype exif_value = Utf8 string | NotUtf8 | NotBytes

type_synonym exif_ifd = "(nat \<times> exif_value) list"

text \<open>
  The bytes of an embedded metadata section, as far as the program looks at them: empty
  (\<^verbatim>\<open>b''\<close>, also standing for an absent section, both are falsy), the output of
  \<^verbatim>\<open>piexif.dump\<close> for an \<^verbatim>\<open>Exif\<close> mapping (which \<^verbatim>\<open>piexif.load(...).get('Exif')\<close>
  gives back), or bytes on which \<^verbatim>\<open>piexif.load\<close> raises, with the message of the exception.
\<close>

datatype exif_blob = Empty | Dump exif_ifd | Malformed string

text \<open>
  The dataclass \<^verbatim>\<open>File\<close>. The field \<^verbatim>\<open>parsed_date\<close> holds a Python object that the
  program compares with \<^verbatim>\<open>None\<close>, so it is an option: \<open>None\<close> is Python's \<^verbatim>\<open>None\<close>,
  \<open>Some s\<close> the string \<open>s\<close>. The dataclass default is the empty string \<open>Some []\<close>.
\<close>

record File =
  filename :: string
  file_path :: string
  new_file_path :: string
  extension :: string
  parsed_date :: "string option"
  exif_bytes :: exif_blob

section \<open>Regular expressions of fixed shape\<close>

text \<open>
  Both patterns of the program are sequences of single-character atoms (a digit class or a
  literal), so a match at a position is unique and \<^verbatim>\<open>re.search\<close> returns the match at
  the leftmost position where the whole sequence fits.
\<close>

datatype atom = Digit | Lit char

definition is_digit :: "char \<Rightarrow> bool" where
  "is_digit c = (c \<in> set ''0123456789'')"

fun atom_match :: "atom \<Rightarrow> char \<Rightarrow> bool" where
  "atom_match Digit c = is_digit c"
| "atom_match (Lit l) c = (c = l)"

fun match_here :: "atom list \<Rightarrow> string \<Rightarrow> bool" where
  "match_here [] s = True"
| "match_here (a # as) [] = False"
| "match_here (a # as) (c # cs) = (atom_match a c \<and> match_here as cs)"

fun re_search :: "atom list \<Rightarrow> string \<Rightarrow> string option" where
  "re_search p [] = (if match_here p [] then Some [] else None)"
| "re_search p (c # cs) =
     (if match_here p (c # cs) then Some (take (length p) (c # cs)) else re_search p cs)"

text \<open>\<^verbatim>\<open>REGEX_FILENAME_DATE = r'(?P<year>\d{4})(?P<month>\d{2})(?P<day>\d{2})'\<close>\<close>

definition REGEX_FILENAME_DATE :: "atom list" where
  "REGEX_FILENAME_DATE = [Digit, Digit, Digit, Digit, Digit, Digit, Digit, Digit]"

definition group_year :: "string \<Rightarrow> string" where
  "group_year m = take 4 m"

definition group_month :: "string \<Rightarrow> string" where
  "group_month m = take 2 (drop 4 m)"

definition group_day :: "string \<Rightarrow> string" where
  "group_day m = take 2 (drop 6 m)"

text \<open>The time pattern \<^verbatim>\<open>r'at (\d{2})\.(\d{2})\.(\d{2})'\<close> and its three groups.\<close>

definition REGEX_FILENAME_TIME :: "atom list" where
  "REGEX_FILENAME_TIME =
     [Lit CHR ''a'', Lit CHR ''t'', Lit CHR '' '', Digit, Digit, Lit CHR ''.'',
      Digit, Digit, Lit CHR ''.'', Digit, Digit]"

definition group_hour :: "string \<Rightarrow> string" where
  "group_hour m = take 2 (drop 3 m)"

definition group_minute :: "string \<Rightarrow> string" where
  "group_minute m = take 2 (drop 6 m)"

definition group_second :: "string \<Rightarrow> string" where
  "group_second m = take 2 (drop 9 m)"

section \<open>Filename date parser\<close>

definition parse_filename_to_date :: "File \<Rightarrow> File" where
  "parse_filename_to_date f =
     (let date_match = re_search REGEX_FILENAME_DATE (filename f);
          time_match = re_search REGEX_FILENAME_TIME (filename f)
      in case date_match of
           None \<Rightarrow> f
         | Some dm \<Rightarrow>
             (let date_str = group_year dm @ '':'' @ group_month dm @ '':'' @ group_day dm;
                  time_str = (case time_match of
                                Some tm \<Rightarrow> group_hour tm @ '':'' @ group_minute tm @ '':'' @ group_second tm
                              | None \<Rightarrow> ''00:00:00'')
              in f\<lparr>parsed_date := Some (date_str @ '' '' @ time_str)\<rparr>))"

section \<open>Metadata synthesizer\<close>

text \<open>\<^verbatim>\<open>piexif.ExifIFD.DateTimeOriginal\<close> and \<^verbatim>\<open>piexif.ExifIFD.DateTimeDigitized\<close>.\<close>

definition DateTimeOriginal :: nat where
  "DateTimeOriginal = 36867"

definition DateTimeDigitized :: nat where
  "DateTimeDigitized = 36868"

text \<open>The f-string conversion of a field that may hold \<^verbatim>\<open>None\<close>.\<close>

fun py_str :: "string option \<Rightarrow> string" where
  "py_str None = ''None''"
| "py_str (Some s) = s"

definition piexif_dump :: "exif_ifd \<Rightarrow> exif_blob" where
  "piexif_dump d = Dump d"

definition new_image_exif_data :: "File \<Rightarrow> File \<times> exif_blob" where
  "new_image_exif_data f =
     (let date_time = py_str (parsed_date f) @ '' 00:00:00'';
          exif_dict = [(DateTimeOriginal, Utf8 date_time), (DateTimeDigitized, Utf8 date_time)];
          blob = piexif_dump exif_dict
      in (f\<lparr>exif_bytes := blob\<rparr>, blob))"

section \<open>Environment: file system, image library, progress reporter\<close>

text \<open>
  A path is a string. Several spellings can name one file (\<^verbatim>\<open>./photos/x.jpg\<close> and
  \<^verbatim>\<open>photos/x.jpg\<close>); \<open>resolve\<close> gives the canonical name of the file a spelling names and
  the store is keyed by canonical names, so that a write or a removal through one spelling
  is seen through every other. There are no symbolic links, the ancestors of a path are
  not tracked, and the empty path names nothing. The operating system is Linux (a
  directory given to \<^verbatim>\<open>open\<close> or \<^verbatim>\<open>os.remove\<close> raises \<^verbatim>\<open>IsADirectoryError\<close>).

  The pixel data of an image is an opaque number. \<open>registered\<close> is Pillow's table of
  file extensions (lower case, with the dot) that have a format: \<^verbatim>\<open>Image.save\<close> raises
  \<^verbatim>\<open>ValueError\<close> for any other. Permissions, a full disk and an encoder that refuses the
  pixel data are not modelled.
\<close>

datatype content = Image nat exif_blob | NotImage

datatype node = Dir | Regular content

text \<open>
  The exceptions that the calls modelled here raise. The operating-system errors carry
  the path; \<^verbatim>\<open>UnidentifiedImageError\<close> carries the text Pillow prints for the object it was
  given; \<^verbatim>\<open>ValueError\<close> and \<^verbatim>\<open>AssertionError\<close> carry their message; \<open>LibraryError\<close> is
  whatever \<^verbatim>\<open>piexif.load\<close> raises on bytes it cannot read (a \<^verbatim>\<open>struct.error\<close>, an
  \<^verbatim>\<open>InvalidImageDataError\<close>), with its message.
\<close>

datatype error =
    FileNotFoundError string
  | FileExistsError string
  | IsADirectoryError string
  | UnidentifiedImageError string
  | ValueError string
  | LibraryError string
  | AssertionError string

text \<open>The file-system calls that returned normally, oldest first.\<close>

datatype fs_op = Makedirs string | Remove string | Save string

datatype symbol = INFO | SUCCESS

text \<open>
  \<open>open_images\<close> lists the images that \<^verbatim>\<open>process_file\<close> obtained from \<^verbatim>\<open>Image.open\<close> and
  on which \<^verbatim>\<open>close()\<close> has not been called, by the path they were opened from. (The image
  made inside \<^verbatim>\<open>export_exif_data\<close> wraps a file object that the \<^verbatim>\<open>with\<close> block closes; it
  is not listed.) Pillow may let go of the underlying file object earlier, once the
  pixel data has been read; the list records whether \<^verbatim>\<open>close()\<close> has been called, not
  the state of the descriptor.
\<close>

record world =
  resolve :: "string \<Rightarrow> string"
  store :: "string \<rightharpoonup> node"
  registered :: "string \<Rightarrow> bool"
  ops :: "fs_op list"
  open_images :: "string list"
  spinner_text :: string
  persisted :: "(symbol \<times> string) list"

text \<open>What a path holds.\<close>

definition nodes :: "world \<Rightarrow> string \<rightharpoonup> node" where
  "nodes w p = (if p = [] then None else store w (resolve w p))"

text \<open>
  \<^verbatim>\<open>repr\<close> of a \<^verbatim>\<open>str\<close>, as the operating-system errors and Pillow print a path: double
  quotes when the text holds a single quote and no double quote, single quotes otherwise;
  the backslash and the chosen quote are escaped, tab, newline and carriage return are
  written \<^verbatim>\<open>\t\<close>, \<^verbatim>\<open>\n\<close>, \<^verbatim>\<open>\r\<close>, and the other characters that are not printable
  (below \<open>0x20\<close>, from \<open>0x7F\<close> to \<open>0xA0\<close>, and \<open>0xAD\<close>) are written \<^verbatim>\<open>\xhh\<close>.
\<close>

definition hex2 :: "nat \<Rightarrow> string" where
  "hex2 n = [''0123456789abcdef'' ! (n div 16), ''0123456789abcdef'' ! (n mod 16)]"

definition repr_char :: "char \<Rightarrow> char \<Rightarrow> string" where
  "repr_char q c =
     (let n = of_char c :: nat
      in if c = q \<or> c = CHR 0x5C then [CHR 0x5C, c]
         else if c = CHR 0x09 then [CHR 0x5C, CHR ''t'']
         else if c = CHR 0x0A then [CHR 0x5C, CHR ''n'']
         else if c = CHR 0x0D then [CHR 0x5C, CHR ''r'']
         else if n < 32 \<or> (127 \<le> n \<and> n \<le> 160) \<or> n = 173
              then [CHR 0x5C, CHR ''x''] @ hex2 n
         else [c])"

definition py_repr :: "string \<Rightarrow> string" where
  "py_repr s =
     (let q = (if CHR 0x27 \<in> set s \<and> CHR 0x22 \<notin> set s then CHR 0x22 else CHR 0x27)
      in [q] @ concat (map (repr_char q) s) @ [q])"

text \<open>\<^verbatim>\<open>str.lower\<close> on code points below 256.\<close>

definition lower_char :: "char \<Rightarrow> char" where
  "lower_char c =
     (let n = of_char c :: nat
      in if (65 \<le> n \<and> n \<le> 90) \<or> (192 \<le> n \<and> n \<le> 222 \<and> n \<noteq> 215)
         then char_of (n + 32) else c)"

definition py_lower :: "string \<Rightarrow> string" where
  "py_lower s = map lower_char s"

text \<open>An opened \<^verbatim>\<open>PIL.Image\<close>: where it was opened from and its pixel data.\<close>

record image =
  opened_from :: string
  pixels :: nat

definition Image_open :: "string \<Rightarrow> world \<Rightarrow> error + (image \<times> world)" where
  "Image_open p w =
     (case nodes w p of
        None \<Rightarrow> Inl (FileNotFoundError p)
      | Some Dir \<Rightarrow> Inl (IsADirectoryError p)
      | Some (Regular NotImage) \<Rightarrow> Inl (UnidentifiedImageError (py_repr p))
      | Some (Regular (Image px ex)) \<Rightarrow>
          Inr (\<lparr>opened_from = p, pixels = px\<rparr>, w\<lparr>open_images := p # open_images w\<rparr>))"

definition img_close :: "image \<Rightarrow> world \<Rightarrow> world" where
  "img_close img w = w\<lparr>open_images := remove1 (opened_from img) (open_images w)\<rparr>"

text \<open>
  \<^verbatim>\<open>piexif.load\<close> on the bytes of a metadata section. The program never calls it on empty
  bytes, which it would take for a file name.
\<close>

definition piexif_load :: "exif_blob \<Rightarrow> error + exif_ifd" where
  "piexif_load b =
     (case b of
        Dump d \<Rightarrow> Inr d
      | Malformed m \<Rightarrow> Inl (LibraryError m)
      | Empty \<Rightarrow> Inl (LibraryError (''[Errno 2] No such file or directory: b'' @ [CHR 0x27, CHR 0x27])))"

definition os_makedirs :: "string \<Rightarrow> world \<Rightarrow> error + world" where
  "os_makedirs p w =
     (if p = [] then Inl (FileNotFoundError p)
      else case nodes w p of
             Some (Regular c) \<Rightarrow> Inl (FileExistsError p)
           | Some Dir \<Rightarrow> Inr (w\<lparr>ops := ops w @ [Makedirs p]\<rparr>)
           | None \<Rightarrow> Inr (w\<lparr>store := (store w)(resolve w p \<mapsto> Dir),
                              ops := ops w @ [Makedirs p]\<rparr>))"

definition os_path_exists :: "world \<Rightarrow> string \<Rightarrow> bool" where
  "os_path_exists w p = (nodes w p \<noteq> None)"

definition os_remove :: "string \<Rightarrow> world \<Rightarrow> error + world" where
  "os_remove p w =
     (case nodes w p of
        None \<Rightarrow> Inl (FileNotFoundError p)
      | Some Dir \<Rightarrow> Inl (IsADirectoryError p)
      | Some (Regular c) \<Rightarrow>
          Inr (w\<lparr>store := (store w)(resolve w p := None), ops := ops w @ [Remove p]\<rparr>))"

text \<open>\<^verbatim>\<open>posixpath.join\<close> with two arguments.\<close>

definition os_path_join :: "string \<Rightarrow> string \<Rightarrow> string" where
  "os_path_join a b =
     (if take 1 b = ''/'' then b
      else if a = [] \<or> take 1 (rev a) = ''/'' then a @ b
      else a @ ''/'' @ b)"

text \<open>\<^verbatim>\<open>str.rfind\<close> for one character: the last index, or \<open>-1\<close>.\<close>

definition rfind :: "string \<Rightarrow> char \<Rightarrow> int" where
  "rfind p c =
     (if c \<in> set p
      then int (length p) - 1 - int (length (takeWhile (\<lambda>x. x \<noteq> c) (rev p)))
      else - 1)"

text \<open>
  \<^verbatim>\<open>posixpath.splitext\<close>: split at the last dot after the last separator, provided one of
  the characters from index \<open>sepIndex + 1\<close> up to \<open>dotIndex\<close> (excluded) is not a dot.
\<close>

definition os_path_splitext :: "string \<Rightarrow> string \<times> string" where
  "os_path_splitext p =
     (let sepIndex = rfind p CHR ''/'';
          dotIndex = rfind p CHR ''.''
      in if dotIndex > sepIndex \<and>
            list_ex (\<lambda>x. x \<noteq> CHR ''.'')
              (take (nat (dotIndex - (sepIndex + 1))) (drop (nat (sepIndex + 1)) p))
         then (take (nat dotIndex) p, drop (nat dotIndex) p)
         else (p, []))"

text \<open>
  \<^verbatim>\<open>Image.save(path, exif=...)\<close>. Pillow takes the format from the lower-cased extension
  of the path and raises \<^verbatim>\<open>ValueError\<close> when the extension has none, before it opens the
  path for writing.
\<close>

definition img_save :: "image \<Rightarrow> string \<Rightarrow> exif_blob \<Rightarrow> world \<Rightarrow> error + world" where
  "img_save img p ex w =
     (let ext = py_lower (snd (os_path_splitext p))
      in if \<not> registered w ext then Inl (ValueError (''unknown file extension: '' @ ext))
         else case nodes w p of
                Some Dir \<Rightarrow> Inl (IsADirectoryError p)
              | _ \<Rightarrow>
                 (if p = [] then Inl (FileNotFoundError p)
                  else Inr (w\<lparr>store := (store w)(resolve w p \<mapsto> Regular (Image (pixels img) ex)),
                               ops := ops w @ [Save p]\<rparr>)))"

definition spinner_info :: "string \<Rightarrow> world \<Rightarrow> world" where
  "spinner_info s w = w\<lparr>persisted := persisted w @ [(INFO, s)]\<rparr>"

definition spinner_succeed :: "string \<Rightarrow> world \<Rightarrow> world" where
  "spinner_succeed s w = w\<lparr>persisted := persisted w @ [(SUCCESS, s)]\<rparr>"

section \<open>Metadata inspector\<close>

definition export_exif_data :: "File \<Rightarrow> world \<Rightarrow> error + exif_ifd option" where
  "export_exif_data f w =
     (case nodes w (file_path f) of
        None \<Rightarrow> Inl (FileNotFoundError (file_path f))
      | Some Dir \<Rightarrow> Inl (IsADirectoryError (file_path f))
      | Some (Regular NotImage) \<Rightarrow>
          Inl (UnidentifiedImageError
                 (''<_io.BufferedReader name='' @ py_repr (file_path f) @ ''>''))
      | Some (Regular (Image px exif_data)) \<Rightarrow>
          (if exif_data \<noteq> Empty
           then (case piexif_load exif_data of Inl e \<Rightarrow> Inl e | Inr d \<Rightarrow> Inr (Some d))
           else Inr None))"

text \<open>The loop over \<^verbatim>\<open>data.items()\<close>.\<close>

fun scan_items :: "exif_ifd \<Rightarrow> bool" where
  "scan_items [] = False"
| "scan_items ((tag_id, Utf8 decoded_value) # rest) =
     (if re_search REGEX_FILENAME_DATE decoded_value \<noteq> None then True else scan_items rest)"
| "scan_items ((tag_id, NotUtf8) # rest) = scan_items rest"
| "scan_items ((tag_id, NotBytes) # rest) = scan_items rest"

definition check_exif :: "File \<Rightarrow> world \<Rightarrow> error + bool" where
  "check_exif f w =
     (case export_exif_data f w of
        Inl e \<Rightarrow> Inl e
      | Inr data \<Rightarrow>
          (case data of
             None \<Rightarrow> Inr False
           | Some d \<Rightarrow> if d \<noteq> [] then Inr (scan_items d) else Inr False))"

section \<open>Destination resolver and write\<close>

text \<open>The message of the \<^verbatim>\<open>assert\<close> of line 172.\<close>

definition assert_message :: string where
  "assert_message = ''New file doesn'' @ [CHR 0x27] @ ''t have exif data.''"

text \<open>Lines 172 to 174: assert that the inspector finds a date, then return the file.\<close>

definition verify :: "File \<Rightarrow> world \<Rightarrow> error + File option" where
  "verify f w =
     (case check_exif f w of
        Inl e \<Rightarrow> Inl e
      | Inr found \<Rightarrow> if found then Inr (Some f) else Inl (AssertionError assert_message))"

text \<open>
  The result is the raised exception, \<open>Inr None\<close> for the bare \<^verbatim>\<open>return\<close>, or the returned
  file; the second component is the \<^verbatim>\<open>File\<close> object as mutated, the third the world.
\<close>

definition save_exif_data ::
    "File \<Rightarrow> image \<Rightarrow> string \<Rightarrow> bool \<Rightarrow> bool \<Rightarrow> world \<Rightarrow> (error + File option) \<times> File \<times> world" where
  "save_exif_data f img outp overwr keep w =
     (case os_makedirs outp w of
        Inl e \<Rightarrow> (Inl e, f, w)
      | Inr w1 \<Rightarrow>
          (let naive = os_path_join outp (filename f)
           in if os_path_exists w1 naive \<and> \<not> overwr then (Inr None, f, w1)
              else
                (case (if os_path_exists w1 naive then os_remove naive w1 else Inr w1) of
                   Inl e \<Rightarrow> (Inl e, f, w1)
                 | Inr w2 \<Rightarrow>
                     (let (base, ext) = os_path_splitext (filename f);
                          new_filename = base @ ''_1'' @ ext;
                          new_path = os_path_join outp new_filename
                      in if keep
                         then (case img_save img (file_path f) (exif_bytes f) w2 of
                                 Inl e \<Rightarrow> (Inl e, f, w2)
                               | Inr w3 \<Rightarrow>
                                   (let w4 = img_close img w3 in (verify f w4, f, w4)))
                         else (case img_save img new_path (exif_bytes f) w2 of
                                 Inl e \<Rightarrow> (Inl e, f, w2)
                               | Inr w3 \<Rightarrow>
                                   (let f' = f\<lparr>new_file_path := new_path\<rparr>;
                                        w4 = img_close img w3
                                    in (verify f' w4, f', w4)))))))"

section \<open>Per-file pipeline and orchestrator\<close>

record args =
  input_path :: string
  output_path :: string
  recursive :: bool
  overwrite :: bool
  keep_original_path :: bool

definition quoted :: "string \<Rightarrow> string" where
  "quoted s = [CHR 0x27] @ s @ [CHR 0x27]"

definition process_file :: "File \<Rightarrow> args \<Rightarrow> world \<Rightarrow> (error + unit) \<times> File \<times> world" where
  "process_file f a w =
     (case Image_open (file_path f) w of
        Inl e \<Rightarrow> (Inl e, f, w)
      | Inr (im, w1) \<Rightarrow>
          (case check_exif f w1 of
             Inl e \<Rightarrow> (Inl e, f, w1)
           | Inr has_date \<Rightarrow>
               if has_date
               then (Inr (), f, spinner_info (''Skipping file: '' @ quoted (filename f)) w1)
               else
                 (let f1 = parse_filename_to_date f
                  in if parsed_date f1 = None then (Inr (), f1, w1)
                     else
                       (let (f2, exif) = new_image_exif_data f1
                        in case save_exif_data f2 im (output_path a) (overwrite a)
                                  (keep_original_path a) w1 of
                             (Inl e, f3, w2) \<Rightarrow> (Inl e, f3, w2)
                           | (Inr r, f3, w2) \<Rightarrow>
                               (Inr (), f3,
                                spinner_succeed
                                  (''Processing complete on file: '' @ quoted (filename f3)) w2)))))"

text \<open>\<^verbatim>\<open>str(e)\<close> for the exceptions above.\<close>

fun error_str :: "error \<Rightarrow> string" where
  "error_str (FileNotFoundError p) = ''[Errno 2] No such file or directory: '' @ py_repr p"
| "error_str (FileExistsError p) = ''[Errno 17] File exists: '' @ py_repr p"
| "error_str (IsADirectoryError p) = ''[Errno 21] Is a directory: '' @ py_repr p"
| "error_str (UnidentifiedImageError r) = ''cannot identify image file '' @ r"
| "error_str (ValueError m) = m"
| "error_str (LibraryError m) = m"
| "error_str (AssertionError m) = m"

text \<open>
  The body of the loop of \<^verbatim>\<open>main\<close>. The list holds \<^verbatim>\<open>File\<close> objects, so the
  \<^verbatim>\<open>isinstance(file, str)\<close> branch is never taken.
\<close>

definition loop_body :: "args \<Rightarrow> File \<Rightarrow> world \<Rightarrow> world" where
  "loop_body a f w =
     (let w1 = w\<lparr>spinner_text := ''Processing: '' @ file_path f\<rparr>
      in case process_file f a w1 of
           (Inl e, f', w2) \<Rightarrow> spinner_info (''An error occurred: '' @ error_str e) w2
         | (Inr u, f', w2) \<Rightarrow> w2)"

fun main_loop :: "args \<Rightarrow> File list \<Rightarrow> world \<Rightarrow> world" where
  "main_loop a [] w = w"
| "main_loop a (f # fs) w = main_loop a fs (loop_body a f w)"

text \<open>\<^verbatim>\<open>main\<close>, from the parsed arguments and the list of discovered files on.\<close>

definition main :: "args \<Rightarrow> File list \<Rightarrow> world \<Rightarrow> world" where
  "main a files_list w =
     spinner_succeed ''Run complete.''
       (main_loop a files_list
          (w\<lparr>spinner_text := ''Retrieving list of media files...'' @ [CHR 0x0A]\<rparr>))"

section \<open>Notions used to state the properties\<close>


definition suffixed_path :: "string \<Rightarrow> File \<Rightarrow> string" where
  "suffixed_path outp f =
     os_path_join outp
       (fst (os_path_splitext (filename f)) @ ''_1'' @ snd (os_path_splitext (filename f)))"






text \<open>The shape \<^verbatim>\<open>YYYY:MM:DD HH:MM:SS\<close> of a date/time value.\<close>

definition DATETIME_SHAPE :: "atom list" where
  "DATETIME_SHAPE =
     [Digit, Digit, Digit, Digit, Lit CHR '':'', Digit, Digit, Lit CHR '':'', Digit, Digit,
      Lit CHR '' '', Digit, Digit, Lit CHR '':'', Digit, Digit, Lit CHR '':'', Digit, Digit]"

definition exif_datetime_format :: "string \<Rightarrow> bool" where
  "exif_datetime_format s = (length s = 19 \<and> match_here DATETIME_SHAPE s)"

text \<open>\<open>mentions p s\<close>: the text \<open>p\<close> occurs in \<open>s\<close>.\<close>

fun mentions :: "string \<Rightarrow> string \<Rightarrow> bool" where
  "mentions p [] = (p = [])"
| "mentions p (c # cs) = (take (length p) (c # cs) = p \<or> mentions p cs)"

subsection \<open>Example inputs\<close>

text \<open>
  Two files as discovery hands them to the pipeline: \<^verbatim>\<open>IMG-20230615-WA0001.jpg\<close>, whose
  name carries a date, and \<^verbatim>\<open>photo.jpg\<close>, whose name carries none. Both are images
  without embedded metadata in the directory \<^verbatim>\<open>in\<close>; nothing else exists. Every path
  is its own canonical name, and Pillow has formats for the extensions of \<open>ex_registry\<close>
  (\<^verbatim>\<open>.mp4\<close> has none in any Pillow).
\<close>

definition ex_file :: File where
  "ex_file = \<lparr>filename = ''IMG-20230615-WA0001.jpg'',
               file_path = ''in/IMG-20230615-WA0001.jpg'',
               new_file_path = [], extension = ''jpg'',
               parsed_date = Some [], exif_bytes = Empty\<rparr>"

definition ex_nodate :: File where
  "ex_nodate = \<lparr>filename = ''photo.jpg'', file_path = ''in/photo.jpg'',
                 new_file_path = [], extension = ''jpg'',
                 parsed_date = Some [], exif_bytes = Empty\<rparr>"

definition ex_registry :: "string \<Rightarrow> bool" where
  "ex_registry e = (e \<in> set [''.jpg'', ''.jpeg'', ''.jpe'', ''.jfif'', ''.png''])"

definition ex_world :: world where
  "ex_world = \<lparr>resolve = (\<lambda>p. p),
                store = [''in/IMG-20230615-WA0001.jpg'' \<mapsto> Regular (Image 1 Empty),
                         ''in/photo.jpg'' \<mapsto> Regular (Image 2 Empty)],
                registered = ex_registry,
                ops = [], open_images = [], spinner_text = [], persisted = []\<rparr>"

definition ex_args :: args where
  "ex_args = \<lparr>input_path = ''in'', output_path = ''out'', recursive = False,
               overwrite = False, keep_original_path = False\<rparr>"


text \<open>The block the synthesizer builds for a date/time text.\<close>

definition stamped :: "string \<Rightarrow> exif_blob" where
  "stamped v = Dump [(36867, Utf8 v), (36868, Utf8 v)]"

subsection \<open>Reference definition of the filename date parser\<close>

text \<open>
  Written from the specification, by positions: a \<open>ParsedDateTime\<close> is a calendar date and
  a time of day, each a fixed-width numeric field. The date is the first contiguous run of
  eight digits, split as \<open>YYYY\<close>, \<open>MM\<close>, \<open>DD\<close>, with no validation. The time is
  looked for independently: the literal word \<^verbatim>\<open>at\<close>, a space, two digits, a period, two
  digits, a period, two digits; when absent the time is midnight. Without a run of eight
  digits the result is empty.
\<close>

record ParsedDateTime =
  year :: string
  month :: string
  day :: string
  hour :: string
  minute :: string
  second :: string

definition slice :: "string \<Rightarrow> nat \<Rightarrow> nat \<Rightarrow> string" where
  "slice s i n = take n (drop i s)"

definition digit_run_at :: "string \<Rightarrow> nat \<Rightarrow> nat \<Rightarrow> bool" where
  "digit_run_at s i n = (i + n \<le> length s \<and> list_all is_digit (slice s i n))"

definition literal_at :: "string \<Rightarrow> nat \<Rightarrow> string \<Rightarrow> bool" where
  "literal_at s i l = (slice s i (length l) = l)"

definition time_pattern_at :: "string \<Rightarrow> nat \<Rightarrow> bool" where
  "time_pattern_at s i =
     (literal_at s i ''at '' \<and> digit_run_at s (i + 3) 2 \<and> literal_at s (i + 5) ''.'' \<and>
      digit_run_at s (i + 6) 2 \<and> literal_at s (i + 8) ''.'' \<and> digit_run_at s (i + 9) 2)"

definition first_position :: "(nat \<Rightarrow> bool) \<Rightarrow> string \<Rightarrow> nat option" where
  "first_position P s = find P [0..<length s]"

definition reference_parser :: "string \<Rightarrow> ParsedDateTime option" where
  "reference_parser s =
     (case first_position (\<lambda>i. digit_run_at s i 8) s of
        None \<Rightarrow> None
      | Some i \<Rightarrow>
          (case first_position (time_pattern_at s) s of
             None \<Rightarrow>
               Some \<lparr>year = slice s i 4, month = slice s (i + 4) 2, day = slice s (i + 6) 2,
                     hour = ''00'', minute = ''00'', second = ''00''\<rparr>
           | Some j \<Rightarrow>
               Some \<lparr>year = slice s i 4, month = slice s (i + 4) 2, day = slice s (i + 6) 2,
                     hour = slice s (j + 3) 2, minute = slice s (j + 6) 2,
                     second = slice s (j + 9) 2\<rparr>))"

text \<open>The text \<^verbatim>\<open>YYYY:MM:DD HH:MM:SS\<close> of a \<open>ParsedDateTime\<close>.\<close>

definition render :: "ParsedDateTime \<Rightarrow> string" where
  "render d =
     year d @ '':'' @ month d @ '':'' @ day d @ '' '' @ hour d @ '':'' @ minute d @ '':'' @ second d"

text \<open>
  A world in which the output directory already holds a file under the name of
  \<^verbatim>\<open>IMG-20230615-WA0001.jpg\<close>.
\<close>

definition ex_collision :: world where
  "ex_collision = \<lparr>resolve = (\<lambda>p. p),
                    store = [''in/IMG-20230615-WA0001.jpg'' \<mapsto> Regular (Image 1 Empty),
                             ''out'' \<mapsto> Dir,
                             ''out/IMG-20230615-WA0001.jpg'' \<mapsto> Regular (Image 9 Empty)],
                    registered = ex_registry,
                    ops = [], open_images = [], spinner_text = [], persisted = []\<rparr>"



section \<open>Evaluation of the model\<close>

lemmas regex_defs =
  REGEX_FILENAME_DATE_def REGEX_FILENAME_TIME_def is_digit_def
  group_year_def group_month_def group_day_def group_hour_def group_minute_def group_second_def

lemmas path_defs = os_path_join_def os_path_splitext_def rfind_def

lemma lower_jpg: "py_lower ''.jpg'' = ''.jpg''"
  by (simp add: py_lower_def lower_char_def)


lemma parse_ex_file:
  "parse_filename_to_date ex_file = ex_file\<lparr>parsed_date := Some ''2023:06:15 00:00:00''\<rparr>"
  by (simp add: ex_file_def parse_filename_to_date_def regex_defs)

lemma parse_ex_nodate: "parse_filename_to_date ex_nodate = ex_nodate"
  by (simp add: ex_nodate_def parse_filename_to_date_def regex_defs)

section \<open>The synthesized value\<close>

text \<open>
  C6. The synthesizer does write exactly the two fields "date/time original" and
  "date/time digitized" with one common value, but for the file \<^verbatim>\<open>IMG-20230615-WA0001.jpg\<close>,
  whose parsed date \<^verbatim>\<open>2023:06:15 00:00:00\<close> has the shape \<^verbatim>\<open>YYYY:MM:DD HH:MM:SS\<close>, that
  value is \<^verbatim>\<open>2023:06:15 00:00:00 00:00:00\<close>, which does not have the shape.
\<close>

theorem synthesized_value_not_in_datetime_format:
  "parsed_date (parse_filename_to_date ex_file) = Some ''2023:06:15 00:00:00''
   \<and> exif_datetime_format ''2023:06:15 00:00:00''
   \<and> snd (new_image_exif_data (parse_filename_to_date ex_file))
       = Dump [(DateTimeOriginal, Utf8 ''2023:06:15 00:00:00 00:00:00''),
               (DateTimeDigitized, Utf8 ''2023:06:15 00:00:00 00:00:00'')]
   \<and> \<not> exif_datetime_format ''2023:06:15 00:00:00 00:00:00''"
  by (simp add: parse_ex_file new_image_exif_data_def piexif_dump_def exif_datetime_format_def
      DATETIME_SHAPE_def is_digit_def Let_def)

lemmas run_defs =
  nodes_def Image_open_def check_exif_def export_exif_data_def new_image_exif_data_def
  piexif_dump_def piexif_load_def save_exif_data_def verify_def os_makedirs_def
  os_path_exists_def os_remove_def img_save_def img_close_def path_defs py_lower_def
  lower_char_def ex_registry_def spinner_succeed_def spinner_info_def stamped_def
  DateTimeOriginal_def DateTimeDigitized_def Let_def

lemma splitext_ex_file: "os_path_splitext ''IMG-20230615-WA0001.jpg'' = (''IMG-20230615-WA0001'', ''.jpg'')"
  by (simp add: path_defs)

lemma splitext_photo: "os_path_splitext ''photo.jpg'' = (''photo'', ''.jpg'')"
  by (simp add: path_defs)

lemma process_ex_file:
  "process_file ex_file ex_args ex_world =
     (Inl (AssertionError assert_message),
      ex_file\<lparr>new_file_path := ''out/IMG-20230615-WA0001_1.jpg'',
              parsed_date := Some ''2023:06:15 00:00:00'',
              exif_bytes := stamped ''2023:06:15 00:00:00 00:00:00''\<rparr>,
      ex_world\<lparr>store := (store ex_world)
                 (''out'' \<mapsto> Dir,
                  ''out/IMG-20230615-WA0001_1.jpg'' \<mapsto>
                     Regular (Image 1 (stamped ''2023:06:15 00:00:00 00:00:00''))),
               ops := [Makedirs ''out'', Save ''out/IMG-20230615-WA0001_1.jpg'']\<rparr>)"
  unfolding process_file_def parse_ex_file
  by (simp add: run_defs regex_defs ex_file_def ex_args_def ex_world_def)

lemma process_ex_file_keep:
  "process_file ex_file (ex_args\<lparr>keep_original_path := True\<rparr>) ex_world =
     (Inl (AssertionError assert_message),
      ex_file\<lparr>parsed_date := Some ''2023:06:15 00:00:00'',
              exif_bytes := stamped ''2023:06:15 00:00:00 00:00:00''\<rparr>,
      ex_world\<lparr>store := (store ex_world)
                 (''out'' \<mapsto> Dir,
                  ''in/IMG-20230615-WA0001.jpg'' \<mapsto>
                     Regular (Image 1 (stamped ''2023:06:15 00:00:00 00:00:00''))),
               ops := [Makedirs ''out'', Save ''in/IMG-20230615-WA0001.jpg'']\<rparr>)"
  unfolding process_file_def parse_ex_file
  by (simp add: run_defs regex_defs ex_file_def ex_args_def ex_world_def)

lemma process_ex_nodate:
  "process_file ex_nodate ex_args ex_world =
     (Inl (AssertionError assert_message),
      ex_nodate\<lparr>new_file_path := ''out/photo_1.jpg'',
              exif_bytes := stamped '' 00:00:00''\<rparr>,
      ex_world\<lparr>store := (store ex_world)
                 (''out'' \<mapsto> Dir,
                  ''out/photo_1.jpg'' \<mapsto> Regular (Image 2 (stamped '' 00:00:00''))),
               ops := [Makedirs ''out'', Save ''out/photo_1.jpg'']\<rparr>)"
  unfolding process_file_def parse_ex_nodate
  by (simp add: run_defs regex_defs ex_nodate_def ex_args_def ex_world_def)

lemma process_ex_collision:
  "process_file ex_file ex_args ex_collision =
     (Inr (),
      ex_file\<lparr>parsed_date := Some ''2023:06:15 00:00:00'',
              exif_bytes := stamped ''2023:06:15 00:00:00 00:00:00''\<rparr>,
      ex_collision\<lparr>ops := [Makedirs ''out''],
               open_images := [''in/IMG-20230615-WA0001.jpg''],
               persisted := [(SUCCESS, ''Processing complete on file: '' @ quoted ''IMG-20230615-WA0001.jpg'')]\<rparr>)"
  unfolding process_file_def parse_ex_file
  by (simp add: run_defs regex_defs ex_file_def ex_args_def ex_collision_def)

section \<open>The parser against its reference definition\<close>

lemma match_here_append:
  "match_here (p @ q) t = (match_here p t \<and> match_here q (drop (length p) t))"
  by (induction p t rule: match_here.induct) auto

lemma match_here_digits:
  "match_here (replicate n Digit) t = (n \<le> length t \<and> list_all is_digit (take n t))"
proof (induction n arbitrary: t)
  case 0
  then show ?case by simp
next
  case (Suc n)
  then show ?case by (cases t) auto
qed

lemma match_here_literal: "match_here (map Lit l) t = (take (length l) t = l)"
proof (induction l arbitrary: t)
  case Nil
  then show ?case by simp
next
  case (Cons a l)
  then show ?case by (cases t) auto
qed

lemma date_regex_replicate: "REGEX_FILENAME_DATE = replicate 8 Digit"
  by (simp add: REGEX_FILENAME_DATE_def eval_nat_numeral)

lemma time_regex_parts:
  "REGEX_FILENAME_TIME =
     map Lit ''at '' @ replicate 2 Digit @ map Lit ''.'' @ replicate 2 Digit @ map Lit ''.'' @
     replicate 2 Digit"
  by (simp add: REGEX_FILENAME_TIME_def eval_nat_numeral)

lemma match_date_at: "match_here REGEX_FILENAME_DATE (drop i s) = digit_run_at s i 8"
  by (auto simp: date_regex_replicate match_here_digits digit_run_at_def slice_def)

lemma match_time_at: "match_here REGEX_FILENAME_TIME (drop i s) = time_pattern_at s i"
  unfolding time_regex_parts match_here_append match_here_digits match_here_literal
  by (auto simp: time_pattern_at_def digit_run_at_def literal_at_def slice_def eval_nat_numeral)

lemma find_map_Suc: "find P (map Suc xs) = map_option Suc (find (\<lambda>i. P (Suc i)) xs)"
  by (induction xs) auto

lemma re_search_first_position:
  "p \<noteq> [] \<Longrightarrow>
   re_search p s =
     map_option (\<lambda>i. take (length p) (drop i s)) (find (\<lambda>i. match_here p (drop i s)) [0..<length s])"
proof (induction s)
  case Nil
  then show ?case by (cases p) auto
next
  case (Cons c cs)
  have "[0..<length (c # cs)] = 0 # map Suc [0..<length cs]"
    by (simp add: upt_conv_Cons map_Suc_upt del: upt_Suc)
  then show ?case using Cons
    by (simp add: find_map_Suc option.map_comp comp_def)
qed

lemma search_date:
  "re_search REGEX_FILENAME_DATE s =
     map_option (\<lambda>i. slice s i 8) (first_position (\<lambda>i. digit_run_at s i 8) s)"
proof -
  have "REGEX_FILENAME_DATE \<noteq> []" and "length REGEX_FILENAME_DATE = 8"
    by (simp_all add: REGEX_FILENAME_DATE_def)
  then show ?thesis
    using re_search_first_position [of REGEX_FILENAME_DATE s]
    by (simp add: match_date_at first_position_def slice_def)
qed

lemma search_time:
  "re_search REGEX_FILENAME_TIME s =
     map_option (\<lambda>i. slice s i 11) (first_position (time_pattern_at s) s)"
proof -
  have "REGEX_FILENAME_TIME \<noteq> []" and "length REGEX_FILENAME_TIME = 11"
    by (simp_all add: REGEX_FILENAME_TIME_def)
  then show ?thesis
    using re_search_first_position [of REGEX_FILENAME_TIME s]
    by (simp add: match_time_at first_position_def slice_def)
qed

lemma date_groups:
  "group_year (slice s i 8) = slice s i 4"
  "group_month (slice s i 8) = slice s (i + 4) 2"
  "group_day (slice s i 8) = slice s (i + 6) 2"
  by (simp_all add: group_year_def group_month_def group_day_def slice_def drop_take add.commute)

lemma time_groups:
  "group_hour (slice s j 11) = slice s (j + 3) 2"
  "group_minute (slice s j 11) = slice s (j + 6) 2"
  "group_second (slice s j 11) = slice s (j + 9) 2"
  by (simp_all add: group_hour_def group_minute_def group_second_def slice_def drop_take add.commute)

lemma parsed_date_reference:
  "parsed_date (parse_filename_to_date f) =
     (case reference_parser (filename f) of None \<Rightarrow> parsed_date f | Some d \<Rightarrow> Some (render d))"
  by (simp add: parse_filename_to_date_def search_date search_time reference_parser_def render_def
      date_groups time_groups Let_def split: option.splits)

lemma first_position_None:
  "(first_position P s = None) = (\<forall>i<length s. \<not> P i)"
  by (auto simp: first_position_def find_None_iff)

lemma first_position_Some: "first_position P s = Some i \<Longrightarrow> P i"
  by (auto simp: first_position_def find_Some_iff)

lemma reference_parser_None:
  "(reference_parser s = None) = (\<forall>i. \<not> digit_run_at s i 8)"
proof
  assume "reference_parser s = None"
  then have "first_position (\<lambda>i. digit_run_at s i 8) s = None"
    by (simp add: reference_parser_def split: option.splits)
  then have "\<forall>i<length s. \<not> digit_run_at s i 8"
    by (simp add: first_position_None)
  moreover have "\<not> digit_run_at s i 8" if "length s \<le> i" for i
    using that by (simp add: digit_run_at_def)
  ultimately show "\<forall>i. \<not> digit_run_at s i 8"
    by (meson not_le)
next
  assume "\<forall>i. \<not> digit_run_at s i 8"
  then have "first_position (\<lambda>i. digit_run_at s i 8) s = None"
    by (simp add: first_position_None)
  then show "reference_parser s = None"
    by (simp add: reference_parser_def)
qed

text \<open>
  C3. For a file as discovery creates it (\<^verbatim>\<open>parsed_date\<close> empty), the parser changes
  nothing but \<^verbatim>\<open>parsed_date\<close>, which becomes the text of the reference result: the first
  run of eight digits split as year, month and day, then the time of the first
  \<^verbatim>\<open>at HH.MM.SS\<close> pattern or midnight; it stays empty when the reference finds nothing,
  which is the case exactly when no position of the filename starts a run of eight digits.
\<close>

theorem parser_refines_reference:
  assumes empty: "parsed_date f = Some []"
  shows "parse_filename_to_date f =
     f\<lparr>parsed_date := Some (case reference_parser (filename f) of None \<Rightarrow> [] | Some d \<Rightarrow> render d)\<rparr>
   \<and> ((reference_parser (filename f) = None) = (\<forall>i. \<not> digit_run_at (filename f) i 8))"
proof
  have "parse_filename_to_date f = f\<lparr>parsed_date := parsed_date (parse_filename_to_date f)\<rparr>"
    by (simp add: parse_filename_to_date_def Let_def split: option.splits)
  also have "parsed_date (parse_filename_to_date f) =
      Some (case reference_parser (filename f) of None \<Rightarrow> [] | Some d \<Rightarrow> render d)"
    using empty by (simp add: parsed_date_reference split: option.splits)
  finally show "parse_filename_to_date f =
      f\<lparr>parsed_date := Some (case reference_parser (filename f) of None \<Rightarrow> [] | Some d \<Rightarrow> render d)\<rparr>" .
next
  show "(reference_parser (filename f) = None) = (\<forall>i. \<not> digit_run_at (filename f) i 8)"
    by (rule reference_parser_None)
qed

theorem parser_refines_reference_witness:
  "parsed_date ex_file = Some [] \<and>
   (case reference_parser (filename ex_file) of None \<Rightarrow> [] | Some d \<Rightarrow> render d)
     = ''2023:06:15 00:00:00'' \<and>
   reference_parser (filename ex_file) \<noteq> None"
proof -
  have empty: "parsed_date ex_file = Some []"
    by (simp add: ex_file_def)
  from parser_refines_reference [OF empty]
  have "parsed_date (parse_filename_to_date ex_file) =
      Some (case reference_parser (filename ex_file) of None \<Rightarrow> [] | Some d \<Rightarrow> render d)"
    by simp
  then have r: "(case reference_parser (filename ex_file) of None \<Rightarrow> [] | Some d \<Rightarrow> render d)
      = ''2023:06:15 00:00:00''"
    by (simp add: parse_ex_file)
  then have "reference_parser (filename ex_file) \<noteq> None"
    by (cases "reference_parser (filename ex_file)") simp_all
  with empty r show ?thesis by simp
qed

section \<open>The stamped block under the inspector's scan\<close>

text \<open>
  For every file as discovery creates it, the two values the synthesizer builds from the
  parser's result hold no run of eight digits: the inspector's scan of the stamped block
  is false whatever the filename.
\<close>

lemma list4: "length xs = 4 \<Longrightarrow> \<exists>a b c d. xs = [a, b, c, d]"
  by (auto simp: eval_nat_numeral length_Suc_conv)

lemma list2: "length xs = 2 \<Longrightarrow> \<exists>a b. xs = [a, b]"
  by (auto simp: eval_nat_numeral length_Suc_conv)

lemma no_run_in_stamped_shape:
  assumes "length y = 4" "length m = 2" "length d = 2" "length h = 2" "length mi = 2"
    "length s = 2"
  shows "re_search REGEX_FILENAME_DATE
     ((y @ '':'' @ m @ '':'' @ d @ '' '' @ h @ '':'' @ mi @ '':'' @ s) @ '' 00:00:00'') = None"
proof -
  from assms obtain y1 y2 y3 y4 m1 m2 d1 d2 h1 h2 i1 i2 s1 s2 where
    "y = [y1, y2, y3, y4]" "m = [m1, m2]" "d = [d1, d2]" "h = [h1, h2]" "mi = [i1, i2]"
    "s = [s1, s2]"
    by (metis list4 list2)
  then show ?thesis
    by (simp add: REGEX_FILENAME_DATE_def is_digit_def)
qed

lemma parsed_date_shape:
  assumes "reference_parser n = Some dt"
  shows "length (year dt) = 4 \<and> length (month dt) = 2 \<and> length (day dt) = 2 \<and>
     length (hour dt) = 2 \<and> length (minute dt) = 2 \<and> length (second dt) = 2"
proof -
  from assms obtain i where i: "first_position (\<lambda>i. digit_run_at n i 8) n = Some i"
    by (auto simp: reference_parser_def split: option.splits)
  then have run: "i + 8 \<le> length n"
    using first_position_Some [of "\<lambda>i. digit_run_at n i 8" n i] by (simp add: digit_run_at_def)
  show ?thesis
  proof (cases "first_position (time_pattern_at n) n")
    case None
    with assms i run show ?thesis
      by (auto simp: reference_parser_def slice_def)
  next
    case (Some j)
    then have "time_pattern_at n j" by (rule first_position_Some)
    then have "j + 11 \<le> length n"
      by (simp add: time_pattern_at_def digit_run_at_def)
    with assms i run Some show ?thesis
      by (auto simp: reference_parser_def slice_def)
  qed
qed

lemma stamped_block_never_passes_inspection:
  assumes "parsed_date f = Some []"
  shows "scan_items
     [(DateTimeOriginal, Utf8 (py_str (parsed_date (parse_filename_to_date f)) @ '' 00:00:00'')),
      (DateTimeDigitized, Utf8 (py_str (parsed_date (parse_filename_to_date f)) @ '' 00:00:00''))]
     = False"
proof (cases "reference_parser (filename f)")
  case None
  with assms have "parsed_date (parse_filename_to_date f) = Some []"
    by (simp add: parsed_date_reference)
  then show ?thesis by (simp add: REGEX_FILENAME_DATE_def is_digit_def)
next
  case (Some dt)
  then have p: "parsed_date (parse_filename_to_date f) = Some (render dt)"
    by (simp add: parsed_date_reference)
  from parsed_date_shape [OF Some]
  have "re_search REGEX_FILENAME_DATE (render dt @ '' 00:00:00'') = None"
    unfolding render_def by (intro no_run_in_stamped_shape) simp_all
  with p show ?thesis by simp
qed

section \<open>Runs of the pipeline on the example files\<close>

text \<open>
  C1. The file \<^verbatim>\<open>IMG-20230615-WA0001.jpg\<close> is stamped and written, to the \<^verbatim>\<open>_1\<close> path
  or, with \<^verbatim>\<open>keep_original_path\<close>, over the source. In both runs the post-write assertion
  fails with \<^verbatim>\<open>AssertionError\<close>, and the inspector, asked about the file that was just
  written, answers that it has no date: the stamped values are
  \<^verbatim>\<open>2023:06:15 00:00:00 00:00:00\<close>, in which no eight digits are contiguous.
\<close>

theorem post_write_check_finds_no_date:
  "fst (process_file ex_file ex_args ex_world) = Inl (AssertionError assert_message)
   \<and> nodes (snd (snd (process_file ex_file ex_args ex_world))) ''out/IMG-20230615-WA0001_1.jpg''
       = Some (Regular (Image 1 (stamped ''2023:06:15 00:00:00 00:00:00'')))
   \<and> check_exif (ex_file\<lparr>file_path := ''out/IMG-20230615-WA0001_1.jpg''\<rparr>)
        (snd (snd (process_file ex_file ex_args ex_world))) = Inr False
   \<and> fst (process_file ex_file (ex_args\<lparr>keep_original_path := True\<rparr>) ex_world)
       = Inl (AssertionError assert_message)
   \<and> nodes (snd (snd (process_file ex_file (ex_args\<lparr>keep_original_path := True\<rparr>) ex_world)))
        ''in/IMG-20230615-WA0001.jpg''
       = Some (Regular (Image 1 (stamped ''2023:06:15 00:00:00 00:00:00'')))
   \<and> check_exif ex_file
        (snd (snd (process_file ex_file (ex_args\<lparr>keep_original_path := True\<rparr>) ex_world)))
       = Inr False"
  unfolding process_ex_file process_ex_file_keep
  by (simp add: nodes_def check_exif_def export_exif_data_def piexif_load_def stamped_def
      regex_defs ex_world_def ex_file_def)

text \<open>
  C2. The name \<^verbatim>\<open>photo.jpg\<close> holds no run of eight digits and the parser leaves
  \<^verbatim>\<open>parsed_date\<close> empty, yet the file is not skipped: the comparison of
  \<^verbatim>\<open>parsed_date\<close> with \<^verbatim>\<open>None\<close> is false for the empty string, a metadata block is
  synthesized from the text \<^verbatim>\<open> 00:00:00\<close>, the image is saved to \<^verbatim>\<open>out/photo_1.jpg\<close>,
  and the run ends with \<^verbatim>\<open>AssertionError\<close>.
\<close>

theorem file_without_date_is_stamped_and_written:
  "re_search REGEX_FILENAME_DATE (filename ex_nodate) = None
   \<and> parsed_date (parse_filename_to_date ex_nodate) = Some []
   \<and> exif_bytes (fst (snd (process_file ex_nodate ex_args ex_world))) = stamped '' 00:00:00''
   \<and> ops (snd (snd (process_file ex_nodate ex_args ex_world)))
       = [Makedirs ''out'', Save ''out/photo_1.jpg'']
   \<and> nodes (snd (snd (process_file ex_nodate ex_args ex_world))) ''out/photo_1.jpg''
       = Some (Regular (Image 2 (stamped '' 00:00:00'')))
   \<and> fst (process_file ex_nodate ex_args ex_world) = Inl (AssertionError assert_message)"
  unfolding process_ex_nodate parse_ex_nodate
  by (simp add: nodes_def ex_nodate_def ex_world_def regex_defs)

text \<open>
  C8. For \<^verbatim>\<open>photo.jpg\<close> the field \<^verbatim>\<open>exif_bytes\<close> is set although \<^verbatim>\<open>parsed_date\<close> is
  still the empty string, right after the synthesizer and at the end of the pipeline.
\<close>

theorem metadata_block_set_without_parsed_date:
  "parsed_date (fst (new_image_exif_data (parse_filename_to_date ex_nodate))) = Some []
   \<and> exif_bytes (fst (new_image_exif_data (parse_filename_to_date ex_nodate))) \<noteq> Empty
   \<and> parsed_date (fst (snd (process_file ex_nodate ex_args ex_world))) = Some []
   \<and> exif_bytes (fst (snd (process_file ex_nodate ex_args ex_world))) \<noteq> Empty"
  unfolding process_ex_nodate parse_ex_nodate
  by (simp add: new_image_exif_data_def piexif_dump_def stamped_def Let_def ex_nodate_def)

section \<open>Effects of the write step\<close>


lemma nodes_other_fields [simp]:
  "nodes (w\<lparr>open_images := a\<rparr>) = nodes w"
  "nodes (w\<lparr>persisted := b\<rparr>) = nodes w"
  "nodes (w\<lparr>spinner_text := c\<rparr>) = nodes w"
  "nodes (w\<lparr>ops := d\<rparr>) = nodes w"
  by (simp_all add: nodes_def fun_eq_iff)





section \<open>Stages of the per-file pipeline\<close>





section \<open>Writing in place\<close>




section \<open>The image handle\<close>

text \<open>
  C9. The only \<^verbatim>\<open>img.close()\<close> of the program is the one after \<^verbatim>\<open>img.save\<close> in
  \<^verbatim>\<open>save_exif_data\<close>: a run that saves releases the image, as for
  \<^verbatim>\<open>IMG-20230615-WA0001.jpg\<close> when nothing exists at the output path. With a file
  already at the naive destination and \<^verbatim>\<open>overwrite\<close> false, \<^verbatim>\<open>save_exif_data\<close> returns
  before that line: \<^verbatim>\<open>process_file\<close> returns normally and the image it opened has not
  been closed.
\<close>

theorem handle_left_open_on_collision_skip:
  "fst (process_file ex_file ex_args ex_collision) = Inr ()
   \<and> open_images ex_collision = []
   \<and> open_images (snd (snd (process_file ex_file ex_args ex_collision)))
       = [''in/IMG-20230615-WA0001.jpg'']
   \<and> open_images ex_world = []
   \<and> open_images (snd (snd (process_file ex_file ex_args ex_world))) = []"
  unfolding process_ex_collision process_ex_file
  by (simp add: ex_collision_def ex_world_def)

section \<open>The collision policy\<close>

lemma suffixed_ex_file: "suffixed_path ''out'' ex_file = ''out/IMG-20230615-WA0001_1.jpg''"
  by (simp add: suffixed_path_def ex_file_def splitext_ex_file os_path_join_def)
















section \<open>The collision policy when writing in place\<close>




section \<open>Failure isolation in the orchestrator\<close>

lemma main_loop_append: "main_loop a (xs @ ys) w = main_loop a ys (main_loop a xs w)"
  by (induction xs arbitrary: w) simp_all

lemma process_ex_file_reported:
  "process_file ex_file ex_args (ex_world\<lparr>spinner_text := t\<rparr>) =
     (Inl (AssertionError assert_message),
      ex_file\<lparr>new_file_path := ''out/IMG-20230615-WA0001_1.jpg'',
              parsed_date := Some ''2023:06:15 00:00:00'',
              exif_bytes := stamped ''2023:06:15 00:00:00 00:00:00''\<rparr>,
      ex_world\<lparr>store := (store ex_world)
                 (''out'' \<mapsto> Dir,
                  ''out/IMG-20230615-WA0001_1.jpg'' \<mapsto>
                     Regular (Image 1 (stamped ''2023:06:15 00:00:00 00:00:00''))),
               ops := [Makedirs ''out'', Save ''out/IMG-20230615-WA0001_1.jpg''],
               spinner_text := t\<rparr>)"
  unfolding process_file_def parse_ex_file
  by (simp add: run_defs regex_defs ex_file_def ex_args_def ex_world_def)

text \<open>
  C4, as the code has it. For every list of files and every file in it: if processing the
  file, in the world the files before it have left, raises an exception, the orchestrator
  persists one line, \<^verbatim>\<open>An error occurred:\<close> followed by the message of the exception,
  goes on with the files after it from the world the failed run has left, and ends the
  batch with \<^verbatim>\<open>Run complete.\<close>
\<close>

theorem failure_isolation:
  assumes raised:
    "fst (process_file f a
        ((main_loop a pre (w\<lparr>spinner_text := ''Retrieving list of media files...'' @ [CHR 0x0A]\<rparr>))
           \<lparr>spinner_text := ''Processing: '' @ file_path f\<rparr>)) = Inl e"
  shows "main a (pre @ f # post) w =
     spinner_succeed ''Run complete.''
       (main_loop a post
          (spinner_info (''An error occurred: '' @ error_str e)
             (snd (snd (process_file f a
                ((main_loop a pre
                    (w\<lparr>spinner_text := ''Retrieving list of media files...'' @ [CHR 0x0A]\<rparr>))
                   \<lparr>spinner_text := ''Processing: '' @ file_path f\<rparr>))))))
   \<and> last (persisted (main a (pre @ f # post) w)) = (SUCCESS, ''Run complete.'')"
proof
  let ?w1 = "(main_loop a pre (w\<lparr>spinner_text := ''Retrieving list of media files...'' @ [CHR 0x0A]\<rparr>))
           \<lparr>spinner_text := ''Processing: '' @ file_path f\<rparr>"
  obtain r f' w2 where run: "process_file f a ?w1 = (r, f', w2)"
    by (metis prod_cases3)
  with raised have r: "r = Inl e" by simp
  have body: "loop_body a f (main_loop a pre (w\<lparr>spinner_text := ''Retrieving list of media files...'' @ [CHR 0x0A]\<rparr>))
      = spinner_info (''An error occurred: '' @ error_str e) w2"
    using run r by (simp add: loop_body_def Let_def)
  show "main a (pre @ f # post) w =
     spinner_succeed ''Run complete.''
       (main_loop a post
          (spinner_info (''An error occurred: '' @ error_str e) (snd (snd (process_file f a ?w1)))))"
    using body run by (simp add: main_def main_loop_append)
  show "last (persisted (main a (pre @ f # post) w)) = (SUCCESS, ''Run complete.'')"
    by (simp add: main_def spinner_succeed_def)
qed

theorem failure_isolation_witness:
  "fst (process_file ex_file ex_args
        ((main_loop ex_args [] (ex_world\<lparr>spinner_text := ''Retrieving list of media files...'' @ [CHR 0x0A]\<rparr>))
           \<lparr>spinner_text := ''Processing: '' @ file_path ex_file\<rparr>))
     = Inl (AssertionError assert_message)
   \<and> last (persisted (main ex_args ([] @ ex_file # [ex_nodate]) ex_world))
       = (SUCCESS, ''Run complete.'')"
proof -
  have h: "fst (process_file ex_file ex_args
        ((main_loop ex_args [] (ex_world\<lparr>spinner_text := ''Retrieving list of media files...'' @ [CHR 0x0A]\<rparr>))
           \<lparr>spinner_text := ''Processing: '' @ file_path ex_file\<rparr>))
     = Inl (AssertionError assert_message)"
    by (simp add: process_ex_file_reported)
  from failure_isolation [OF h, of "[ex_nodate]"] h show ?thesis by blast
qed

text \<open>
  The claim as stated fails on "logged with the file identity": the line persisted for the
  failing file \<^verbatim>\<open>in/IMG-20230615-WA0001.jpg\<close> holds the message of the assertion only,
  neither the path nor the name of the file.
\<close>

theorem error_line_omits_file_identity:
  "persisted (main ex_args [ex_file] ex_world)
     = [(INFO, ''An error occurred: '' @ assert_message), (SUCCESS, ''Run complete.'')]
   \<and> \<not> mentions (file_path ex_file) (''An error occurred: '' @ assert_message)
   \<and> \<not> mentions (filename ex_file) (''An error occurred: '' @ assert_message)"
proof -
  have "persisted (main ex_args [ex_file] ex_world)
     = [(INFO, ''An error occurred: '' @ assert_message), (SUCCESS, ''Run complete.'')]"
  proof -
    have "persisted ex_world = []" by (simp add: ex_world_def)
    then show ?thesis
      by (simp add: main_def loop_body_def process_ex_file_reported spinner_info_def
          spinner_succeed_def)
  qed
  moreover have "\<not> mentions (file_path ex_file) (''An error occurred: '' @ assert_message)"
    by (simp add: ex_file_def assert_message_def)
  moreover have "\<not> mentions (filename ex_file) (''An error occurred: '' @ assert_message)"
    by (simp add: ex_file_def assert_message_def)
  ultimately show ?thesis by blast
qed

end
